theory Spec2Isabelle
  imports Main "HOL-Library.AList"
begin

section \<open>JavaScript values, objects and errors\<close>

text \<open>
  The values the background script stores, relays and persists. Ordinary numbers are
  IEEE doubles; none of the code below inspects one, so their type is the parameter
  \<open>'n\<close>. A \<open>bigint\<close> is an unbounded integer. An object is the list of its own
  enumerable properties in \<open>Object.keys\<close> order.
\<close>

datatype 'n jsvalue =
    JNull
  | JBool bool
  | JNumber 'n
  | JString string
  | JBigInt int
  | JArray "'n jsvalue list"
  | JObject "(string \<times> 'n jsvalue) list"

text \<open>\<open>typeof v === "object" && v !== null\<close>: arrays are objects, a bigint is not.\<close>

fun isNonNullObject :: "'n jsvalue \<Rightarrow> bool" where
  "isNonNullObject (JArray _) = True"
| "isNonNullObject (JObject _) = True"
| "isNonNullObject _ = False"

datatype jsError =
    Error string
  | TypeError string
  | SyntaxError string

text \<open>
  A plain object literal \<open>{}\<close> inherits from \<open>Object.prototype\<close>. The property
  names every such object answers to without owning them (ECMAScript, with the legacy
  accessors of its Annex B); each of them holds a function, and \<open>__proto__\<close> yields the
  prototype object itself, so all of them are truthy and none is \<open>undefined\<close>.
\<close>

definition objectPrototypeKeys :: "string list" where
  "objectPrototypeKeys =
     [''constructor'', ''hasOwnProperty'', ''isPrototypeOf'', ''propertyIsEnumerable'',
      ''toLocaleString'', ''toString'', ''valueOf'', ''__proto__'',
      ''__defineGetter__'', ''__defineSetter__'', ''__lookupGetter__'',
      ''__lookupSetter__'']"

text \<open>
  What \<open>obj[k]\<close> finds on a plain object whose own properties are the map \<open>obj\<close>: the own
  property, else the inherited one, else \<open>undefined\<close>.
\<close>

datatype 'h jsprop = Own 'h | Inherited | Undefined

definition getProp :: "(string \<rightharpoonup> 'h) \<Rightarrow> string \<Rightarrow> 'h jsprop" where
  "getProp obj k =
     (case obj k of
        Some h \<Rightarrow> Own h
      | None \<Rightarrow> if k \<in> set objectPrototypeKeys then Inherited else Undefined)"


section \<open>Background async thunks and the alias registry (redux-slices/utils.ts)\<close>

text \<open>The plain action a script dispatches: \<open>{type, payload}\<close>.\<close>

record 'a action =
  type :: string
  payload :: 'a

text \<open>
  The lifecycle actions of one async operation, as the store sees them: the thunk's type
  prefix, the argument, and the result or the reason.
\<close>

datatype ('a, 'r, 'e) lifecycleAction =
    Pending string 'a
  | Fulfilled string 'a 'r
  | Rejected string 'a 'e

text \<open>
  An \<open>AsyncThunkAction\<close> runs against the store. The store is seen through the sequence
  of lifecycle actions dispatched on it; the first component of the result is the
  rejection that escapes the run (\<open>None\<close>: the promise the run returns resolves).
\<close>

type_synonym ('a, 'r, 'e) asyncThunkAction =
  "('a, 'r, 'e) lifecycleAction list \<Rightarrow> 'e option \<times> ('a, 'r, 'e) lifecycleAction list"

text \<open>
  The payload creator is the async operation: \<open>Inr result\<close> when its promise resolves,
  \<open>Inl reason\<close> when it throws or its promise rejects.
\<close>

type_synonym ('a, 'r, 'e) payloadCreator = "'a \<Rightarrow> 'e + 'r"

record 'a asyncThunkOptions =
  skipCondition :: "('a \<Rightarrow> bool) option"

text \<open>The utility properties \<open>createAsyncThunk\<close> puts on the action creator it returns.\<close>

record ('a, 'r, 'e) asyncThunkProps =
  propTypePrefix :: string
  propPending :: "'a \<Rightarrow> ('a, 'r, 'e) lifecycleAction"
  propRejected :: "'a \<Rightarrow> 'e \<Rightarrow> ('a, 'r, 'e) lifecycleAction"
  propFulfilled :: "'a \<Rightarrow> 'r \<Rightarrow> ('a, 'r, 'e) lifecycleAction"

record ('a, 'r, 'e) asyncThunk = "('a, 'r, 'e) asyncThunkProps" +
  thunkCall :: "'a \<Rightarrow> ('a, 'r, 'e) asyncThunkAction"

text \<open>
  Modelled from the spec: the skip condition of the options that
  \<open>createBackgroundAsyncThunk\<close> hands to \<open>createAsyncThunk\<close> (4.3, step 1). No
  options, or options without a condition, never signal skip.
\<close>

definition signalsSkip :: "'a asyncThunkOptions option \<Rightarrow> 'a \<Rightarrow> bool" where
  "signalsSkip options arg =
     (case options of
        None \<Rightarrow> False
      | Some opts \<Rightarrow> (case skipCondition opts of None \<Rightarrow> False | Some c \<Rightarrow> c arg))"

text \<open>
  Modelled from the spec: \<open>createAsyncThunk\<close> of the redux toolkit, which
  \<open>createBackgroundAsyncThunk\<close> calls and whose code is not among the sources. The
  spec's async lifecycle wrapper (4.3): the handler (1) optionally evaluates a skip
  condition from the options, and if it signals skip dispatches no lifecycle action and
  resolves inertly; (2) otherwise dispatches Pending; (3) invokes the operation; (4) on
  success dispatches Fulfilled, on a thrown error or rejected result dispatches Rejected,
  and the failure never escapes. The run is that of an operation that settles.
\<close>

definition createAsyncThunk ::
  "string \<Rightarrow> ('a, 'r, 'e) payloadCreator \<Rightarrow> 'a asyncThunkOptions option
     \<Rightarrow> ('a, 'r, 'e) asyncThunk" where
  "createAsyncThunk typePrefix payloadCreator options =
     \<lparr> propTypePrefix = typePrefix,
       propPending = Pending typePrefix,
       propRejected = Rejected typePrefix,
       propFulfilled = Fulfilled typePrefix,
       thunkCall = (\<lambda>arg dispatched.
         if signalsSkip options arg then (None, dispatched)
         else
           let started = dispatched @ [Pending typePrefix arg] in
           (case payloadCreator arg of
              Inr result \<Rightarrow> (None, started @ [Fulfilled typePrefix arg result])
            | Inl reason \<Rightarrow> (None, started @ [Rejected typePrefix arg reason]))) \<rparr>"

text \<open>
  The action creator \<open>createBackgroundAsyncThunk\<close> returns: the function
  \<open>(payload) => ({type: typePrefix, payload})\<close> with the four utility properties copied
  onto it by \<open>Object.assign\<close>.
\<close>

record ('a, 'r, 'e) webextActionCreator = "('a, 'r, 'e) asyncThunkProps" +
  actionCreator :: "'a \<Rightarrow> 'a action"

text \<open>
  The module's state: \<open>allAliases\<close> (the own properties of the exported object, which
  starts as \<open>{}\<close>) and the type prefixes for which the underlying thunk has been built,
  in the order of the \<open>createAsyncThunk\<close> calls.
\<close>

record ('a, 'r, 'e) aliasModule =
  allAliases :: "string \<rightharpoonup> ('a action \<Rightarrow> ('a, 'r, 'e) asyncThunkAction)"
  builtThunks :: "string list"

definition initialModule :: "('a, 'r, 'e) aliasModule" where
  "initialModule = \<lparr> allAliases = Map.empty, builtThunks = [] \<rparr>"

text \<open>
  The test \<open>if (allAliases[typePrefix])\<close>: a registered handler is a function and so is
  every inherited property; only \<open>undefined\<close> is falsy.
\<close>

fun truthy :: "'h jsprop \<Rightarrow> bool" where
  "truthy (Own _) = True"
| "truthy Inherited = True"
| "truthy Undefined = False"

definition createBackgroundAsyncThunk ::
  "string \<Rightarrow> ('a, 'r, 'e) payloadCreator \<Rightarrow> 'a asyncThunkOptions option
     \<Rightarrow> ('a, 'r, 'e) aliasModule
     \<Rightarrow> (jsError + ('a, 'r, 'e) webextActionCreator) \<times> ('a, 'r, 'e) aliasModule" where
  "createBackgroundAsyncThunk typePrefix payloadCreator options m =
     (if truthy (getProp (allAliases m) typePrefix)
      then (Inl (Error ''Attempted to register an alias twice.''), m)
      else
        let baseThunkActionCreator = createAsyncThunk typePrefix payloadCreator options;
            webextActionCreator =
              \<lparr> propTypePrefix = propTypePrefix baseThunkActionCreator,
                propPending = propPending baseThunkActionCreator,
                propRejected = propRejected baseThunkActionCreator,
                propFulfilled = propFulfilled baseThunkActionCreator,
                actionCreator = (\<lambda>payload. \<lparr> type = typePrefix, payload = payload \<rparr>) \<rparr>
        in (Inr webextActionCreator,
            m \<lparr> allAliases := (allAliases m)
                   (typePrefix \<mapsto> (\<lambda>action. thunkCall baseThunkActionCreator (payload action))),
                builtThunks := builtThunks m @ [typePrefix] \<rparr>))"


section \<open>The orchestrator (main.ts)\<close>

subsection \<open>Chain service events\<close>

text \<open>
  A property that may be missing from an object, present with the value \<open>undefined\<close>,
  or present with a value.
\<close>

datatype 'g optionalField = Absent | PresentUndefined | PresentValue 'g

text \<open>
  What the \<open>transaction\<close> listener reads of a transaction: \<open>blockHash\<close> (\<open>None\<close> is
  \<open>null\<close> or \<open>undefined\<close>) and \<open>gasUsed\<close>; the other fields are carried along.
\<close>

record ('g, 't) evmTransaction =
  blockHash :: "string option"
  gasUsed :: "'g optionalField"
  otherFields :: 't

record ('g, 't, 'p) transactionPayload =
  transaction :: "('g, 't) evmTransaction"
  otherPayload :: 'p

text \<open>The chain service's event vocabulary; \<open>'x\<close> is the payload of the other events.\<close>

datatype ('g, 't, 'p, 'x) chainEvent =
    AccountBalanceEvent 'x
  | TransactionEvent "('g, 't, 'p) transactionPayload"
  | BlockEvent 'x
  | BlockPricesEvent 'x

fun eventName :: "('g, 't, 'p, 'x) chainEvent \<Rightarrow> string" where
  "eventName (AccountBalanceEvent _) = ''accountBalance''"
| "eventName (TransactionEvent _) = ''transaction''"
| "eventName (BlockEvent _) = ''block''"
| "eventName (BlockPricesEvent _) = ''blockPrices''"

text \<open>The actions the listeners dispatch, named after their action creators.\<close>

datatype ('g, 't, 'p, 'x) storeAction =
    UpdateAccountBalance 'x
  | TransactionConfirmed "('g, 't) evmTransaction"
  | TransactionSeen "('g, 't) evmTransaction"
  | ActivityEncountered "('g, 't, 'p) transactionPayload"
  | BlockSeen 'x
  | GasEstimates 'x

text \<open>\<open>this.store.dispatch(a)\<close>, the store seen through the sequence of its dispatches.\<close>

definition dispatch ::
  "('g, 't, 'p, 'x) storeAction \<Rightarrow> ('g, 't, 'p, 'x) storeAction list
     \<Rightarrow> ('g, 't, 'p, 'x) storeAction list" where
  "dispatch a dispatched = dispatched @ [a]"

text \<open>Truthiness of a string-or-nullish value: \<open>null\<close>, \<open>undefined\<close> and \<open>""\<close> are falsy.\<close>

fun truthyString :: "string option \<Rightarrow> bool" where
  "truthyString None = False"
| "truthyString (Some s) = (s \<noteq> [])"

text \<open>\<open>"gasUsed" in transaction && transaction.gasUsed !== undefined\<close>\<close>

fun definedField :: "'g optionalField \<Rightarrow> bool" where
  "definedField Absent = False"
| "definedField PresentUndefined = False"
| "definedField (PresentValue _) = True"

text \<open>The listener \<open>connectChainService\<close> registers for \<open>transaction\<close>.\<close>

definition onTransaction ::
  "('g, 't, 'p) transactionPayload \<Rightarrow> ('g, 't, 'p, 'x) storeAction list
     \<Rightarrow> ('g, 't, 'p, 'x) storeAction list" where
  "onTransaction p dispatched =
     (let tx = transaction p;
          afterFirst =
            (if truthyString (blockHash tx) \<and> definedField (gasUsed tx)
             then dispatch (TransactionConfirmed tx) dispatched
             else dispatch (TransactionSeen tx) dispatched)
      in dispatch (ActivityEncountered p) afterFirst)"

text \<open>
  The listeners \<open>connectChainService\<close> puts on \<open>chainService.emitter\<close>, in the order of
  its \<open>on\<close> calls, each under the event name it is registered for.
\<close>

definition connectChainService ::
  "(string \<times> (('g, 't, 'p, 'x) chainEvent \<Rightarrow> ('g, 't, 'p, 'x) storeAction list
      \<Rightarrow> ('g, 't, 'p, 'x) storeAction list)) list" where
  "connectChainService =
     [(''accountBalance'',
        (\<lambda>ev. case ev of AccountBalanceEvent accountWithBalance \<Rightarrow>
                 dispatch (UpdateAccountBalance accountWithBalance) | _ \<Rightarrow> id)),
      (''transaction'',
        (\<lambda>ev. case ev of TransactionEvent p \<Rightarrow> onTransaction p | _ \<Rightarrow> id)),
      (''block'',
        (\<lambda>ev. case ev of BlockEvent b \<Rightarrow> dispatch (BlockSeen b) | _ \<Rightarrow> id)),
      (''blockPrices'',
        (\<lambda>ev. case ev of BlockPricesEvent blockPrices \<Rightarrow>
                 dispatch (GasEstimates blockPrices) | _ \<Rightarrow> id))]"

text \<open>Emitting an event runs the listeners registered under its name, in order.\<close>

definition emit ::
  "(string \<times> (('g, 't, 'p, 'x) chainEvent \<Rightarrow> 's \<Rightarrow> 's)) list
     \<Rightarrow> ('g, 't, 'p, 'x) chainEvent \<Rightarrow> 's \<Rightarrow> 's" where
  "emit listeners ev st =
     fold (\<lambda>(name, listener) s. if name = eventName ev then listener ev s else s)
       listeners st"

subsection \<open>The redux cache middleware\<close>

text \<open>
  What a dispatch can touch: the store's state, and the \<open>browser.storage.local.set\<close>
  calls started so far, each as the key and the text it stores.
\<close>

record 's background =
  storeState :: 's
  storageSets :: "(string \<times> string) list"

text \<open>
  A dispatch function, or the \<open>next\<close> of a middleware: it takes the action and returns
  a result. Reducers are pure functions of the state and the action.
\<close>

type_synonym ('act, 'res, 's) dispatchFn = "'act \<Rightarrow> 's background \<Rightarrow> 'res \<times> 's background"

text \<open>
  \<open>browser.storage.local.set(item)\<close> starts the write and returns a promise. The promise
  is the first component, given by how it settles: \<open>None\<close> when the write succeeds,
  \<open>Some e\<close> when it rejects with \<open>e\<close>. How a write settles is the parameter \<open>outcome\<close>.
\<close>

definition storageLocalSet ::
  "(string \<times> string \<Rightarrow> jsError option) \<Rightarrow> string \<times> string \<Rightarrow> 's background
     \<Rightarrow> jsError option \<times> 's background" where
  "storageLocalSet outcome item w = (outcome item, w \<lparr> storageSets := storageSets w @ [item] \<rparr>)"

text \<open>
  \<open>reduxCache\<close>, with \<open>process.env.WRITE_REDUX_CACHE\<close> and \<open>encodeJSON\<close> (of
  \<open>lib/utils\<close>, not among the sources) as parameters. The promise of the write is an
  expression statement: nothing reads it.
\<close>

definition reduxCache ::
  "string option \<Rightarrow> ('s \<Rightarrow> string) \<Rightarrow> (string \<times> string \<Rightarrow> jsError option)
     \<Rightarrow> ('act, 'res, 's) dispatchFn \<Rightarrow> ('act, 'res, 's) dispatchFn" where
  "reduxCache WRITE_REDUX_CACHE encodeJSON outcome nxt action w =
     (let (result, w1) = nxt action w;
          state = storeState w1
      in if WRITE_REDUX_CACHE = Some ''true''
         then (let (promise, w2) = storageLocalSet outcome (''state'', encodeJSON state) w1
               in (result, w2))
         else (result, w1))"

text \<open>
  The middleware list \<open>initializeStore\<close> builds: \<open>alias(allAliases)\<close> is put in front
  of the default middleware and \<open>reduxCache\<close> behind it.
\<close>

definition storeMiddleware ::
  "(('act, 'res, 's) dispatchFn \<Rightarrow> ('act, 'res, 's) dispatchFn)
     \<Rightarrow> (('act, 'res, 's) dispatchFn \<Rightarrow> ('act, 'res, 's) dispatchFn) list
     \<Rightarrow> string option \<Rightarrow> ('s \<Rightarrow> string) \<Rightarrow> (string \<times> string \<Rightarrow> jsError option)
     \<Rightarrow> (('act, 'res, 's) dispatchFn \<Rightarrow> ('act, 'res, 's) dispatchFn) list" where
  "storeMiddleware aliasMiddleware defaultMiddleware WRITE_REDUX_CACHE encodeJSON outcome =
     (aliasMiddleware # defaultMiddleware) @ [reduxCache WRITE_REDUX_CACHE encodeJSON outcome]"

text \<open>
  The store's own dispatch runs the root reducer on the state and returns the action
  (\<open>Inl\<close>; \<open>Inr\<close> is what a middleware returns instead of it); a middleware chain wraps
  it from the right, so the last middleware's \<open>next\<close> is the store's own dispatch.
\<close>

definition reducerDispatch ::
  "('s \<Rightarrow> 'act \<Rightarrow> 's) \<Rightarrow> ('act, 'act + 'h, 's) dispatchFn" where
  "reducerDispatch rootReducer action w =
     (Inl action, w \<lparr> storeState := rootReducer (storeState w) action \<rparr>)"

definition applyMiddleware ::
  "(('act, 'res, 's) dispatchFn \<Rightarrow> ('act, 'res, 's) dispatchFn) list
     \<Rightarrow> ('act, 'res, 's) dispatchFn \<Rightarrow> ('act, 'res, 's) dispatchFn" where
  "applyMiddleware middleware base = foldr (\<lambda>m d. m d) middleware base"

text \<open>Dispatching a sequence of actions, one after the other.\<close>

fun dispatchAll ::
  "('act, 'res, 's) dispatchFn \<Rightarrow> 'act list \<Rightarrow> 's background \<Rightarrow> 's background" where
  "dispatchAll d [] w = w"
| "dispatchAll d (a # as) w = dispatchAll d as (snd (d a w))"

text \<open>The states the store goes through while a sequence of actions is reduced.\<close>

fun statesAfter :: "('s \<Rightarrow> 'act \<Rightarrow> 's) \<Rightarrow> 's \<Rightarrow> 'act list \<Rightarrow> 's list" where
  "statesAfter rootReducer s [] = []"
| "statesAfter rootReducer s (a # as) =
     rootReducer s a # statesAfter rootReducer (rootReducer s a) as"

text \<open>
  Modelled from the spec: the relay, which is the \<open>alias\<close> middleware of webext-redux
  together with the thunk middleware that runs what the handler returns; neither is
  among the sources. An action on the store is a plain action of a script (\<open>Inl\<close>) or
  a lifecycle action (\<open>Inr\<close>). The spec (4.2, 4.3): \<open>relay(action)\<close> looks up
  \<open>action.type\<close>; if it is found, the handler is invoked with the action and dispatches
  its lifecycle actions onto the store, and the relay returns the lifecycle handle; if
  it is not found, the action is left untouched for normal processing. A lifecycle
  action is not a registered type, so the relay stage hands the ones the handler
  dispatches on to the next stage.
\<close>

definition relay ::
  "(string \<rightharpoonup> ('a action \<Rightarrow> ('a, 'r, 'e) asyncThunkAction))
     \<Rightarrow> ('a action + ('a, 'r, 'e) lifecycleAction,
         ('a action + ('a, 'r, 'e) lifecycleAction) + 'e option, 's) dispatchFn
     \<Rightarrow> ('a action + ('a, 'r, 'e) lifecycleAction,
         ('a action + ('a, 'r, 'e) lifecycleAction) + 'e option, 's) dispatchFn" where
  "relay aliases nxt act w =
     (case act of
        Inr lifecycle \<Rightarrow> nxt act w
      | Inl plain \<Rightarrow>
          (case aliases (type plain) of
             None \<Rightarrow> nxt act w
           | Some handler \<Rightarrow>
               (let (escaped, lifecycle) = handler plain []
                in (Inr escaped, dispatchAll nxt (map Inr lifecycle) w))))"

text \<open>
  The dispatch of the store \<open>initializeStore\<close> builds: the middleware list around the
  store's own dispatch, with the relay as the alias middleware.
\<close>

definition storeDispatch ::
  "(string \<rightharpoonup> ('a action \<Rightarrow> ('a, 'r, 'e) asyncThunkAction))
     \<Rightarrow> (('a action + ('a, 'r, 'e) lifecycleAction,
          ('a action + ('a, 'r, 'e) lifecycleAction) + 'e option, 's) dispatchFn
         \<Rightarrow> ('a action + ('a, 'r, 'e) lifecycleAction,
          ('a action + ('a, 'r, 'e) lifecycleAction) + 'e option, 's) dispatchFn) list
     \<Rightarrow> string option \<Rightarrow> ('s \<Rightarrow> string) \<Rightarrow> (string \<times> string \<Rightarrow> jsError option)
     \<Rightarrow> ('s \<Rightarrow> 'a action + ('a, 'r, 'e) lifecycleAction \<Rightarrow> 's)
     \<Rightarrow> ('a action + ('a, 'r, 'e) lifecycleAction,
         ('a action + ('a, 'r, 'e) lifecycleAction) + 'e option, 's) dispatchFn" where
  "storeDispatch aliases defaultMiddleware WRITE_REDUX_CACHE encodeJSON outcome rootReducer =
     applyMiddleware
       (storeMiddleware (relay aliases) defaultMiddleware WRITE_REDUX_CACHE encodeJSON outcome)
       (reducerDispatch rootReducer)"


subsection \<open>Restoring the saved state at creation\<close>

text \<open>
  The part of \<open>Main.create\<close> that computes \<open>savedReduxState\<close>. Its inputs:
  \<open>process.env.READ_REDUX_CACHE\<close>; the outcome of
  \<open>await browser.storage.local.get("state")\<close>, a rejection or the value under the key
  (\<open>None\<close>: nothing stored; the cache writes text, so a stored value is a string); and
  \<open>decodeJSON\<close> (of \<open>lib/utils\<close>, not among the sources), which may throw.
\<close>

definition restoreSavedReduxState ::
  "string option \<Rightarrow> (jsError + string option) \<Rightarrow> (string \<Rightarrow> jsError + 'n jsvalue)
     \<Rightarrow> jsError + 'n jsvalue" where
  "restoreSavedReduxState READ_REDUX_CACHE storageGet decodeJSON =
     (if READ_REDUX_CACHE = Some ''true'' then
        (case storageGet of
           Inl rejection \<Rightarrow> Inl rejection
         | Inr state \<Rightarrow>
             (case state of
                None \<Rightarrow> Inr (JObject [])
              | Some stored \<Rightarrow>
                  if truthyString state then
                    (case decodeJSON stored of
                       Inl thrown \<Rightarrow> Inl thrown
                     | Inr restoredState \<Rightarrow>
                         if isNonNullObject restoredState then Inr restoredState
                         else Inl (Error (''Unexpected JSON persisted for state: '' @ stored)))
                  else Inr (JObject [])))
      else Inr (JObject []))"

text \<open>
  The orchestrator \<open>Main.create\<close> returns: the state its store was created from and the
  five services. Each service factory's promise is given by its outcome.
\<close>

record ('n, 'v) main =
  preloadedState :: "'n jsvalue"
  preferenceService :: 'v
  chainService :: 'v
  indexingService :: 'v
  keyringService :: 'v
  nameService :: 'v

definition create ::
  "string option \<Rightarrow> (jsError + string option) \<Rightarrow> (string \<Rightarrow> jsError + 'n jsvalue)
     \<Rightarrow> (jsError + 'v) \<Rightarrow> (jsError + 'v) \<Rightarrow> (jsError + 'v) \<Rightarrow> (jsError + 'v)
     \<Rightarrow> (jsError + 'v) \<Rightarrow> jsError + ('n, 'v) main" where
  "create READ_REDUX_CACHE storageGet decodeJSON
      preferenceServiceP chainServiceP indexingServiceP keyringServiceP nameServiceP =
     (case restoreSavedReduxState READ_REDUX_CACHE storageGet decodeJSON of
        Inl e \<Rightarrow> Inl e
      | Inr savedReduxState \<Rightarrow>
     (case preferenceServiceP of Inl e \<Rightarrow> Inl e | Inr ps \<Rightarrow>
     (case chainServiceP of Inl e \<Rightarrow> Inl e | Inr cs \<Rightarrow>
     (case indexingServiceP of Inl e \<Rightarrow> Inl e | Inr ixs \<Rightarrow>
     (case keyringServiceP of Inl e \<Rightarrow> Inl e | Inr ks \<Rightarrow>
     (case nameServiceP of Inl e \<Rightarrow> Inl e | Inr ns \<Rightarrow>
        Inr \<lparr> preloadedState = savedReduxState, preferenceService = ps, chainService = cs,
              indexingService = ixs, keyringService = ks, nameService = ns \<rparr>))))))"


section \<open>Adapting an item for the UI (redux-slices/utils.ts)\<close>

record 'v keyAdjustment =
  readableName :: string
  transformer :: "'v \<Rightarrow> string"
  detailTransformer :: "'v \<Rightarrow> string"

text \<open>
  A \<open>UIAdaptationMap\<close> by its own properties: \<open>None\<close> when the map has no property of
  that name, \<open>Some None\<close> when the property is there and holds \<open>undefined\<close> (every
  entry is optional), \<open>Some (Some adjustment)\<close> otherwise. The map is a plain object, so
  \<open>key in keysMap\<close> and \<open>keysMap[key]\<close> also find what it inherits.
\<close>

type_synonym 'v uiAdaptationMap = "string \<rightharpoonup> 'v keyAdjustment option"

definition hasProperty :: "(string \<rightharpoonup> 'h) \<Rightarrow> string \<Rightarrow> bool" where
  "hasProperty obj k = (obj k \<noteq> None \<or> k \<in> set objectPrototypeKeys)"

text \<open>
  One round of the \<open>reduce\<close>, for the key \<open>key\<close> of the item and the value \<open>v\<close> the
  item holds there. An inherited property is not \<open>undefined\<close> and has no
  \<open>transformer\<close>, so calling it throws a TypeError, which ends the \<open>reduce\<close>. The spread
  \<open>{...previousValue, [name]: x}\<close> replaces the value of a property that is already
  there and appends a new one.
\<close>

definition adaptKey ::
  "'v uiAdaptationMap \<Rightarrow> string \<times> 'v \<Rightarrow> jsError + (string \<times> string) list
     \<Rightarrow> jsError + (string \<times> string) list" where
  "adaptKey keysMap entry acc =
     (case acc of
        Inl thrown \<Rightarrow> Inl thrown
      | Inr previousValue \<Rightarrow>
          (case entry of (key, v) \<Rightarrow>
            if hasProperty keysMap key then
              (case getProp keysMap key of
                 Own None \<Rightarrow> Inr previousValue
               | Own (Some keyAdjustment) \<Rightarrow>
                   Inr (AList.update (readableName keyAdjustment)
                          (transformer keyAdjustment v) previousValue)
               | Inherited \<Rightarrow> Inl (TypeError ''keyAdjustment.transformer is not a function'')
               | Undefined \<Rightarrow> Inr previousValue)
            else Inr previousValue))"

text \<open>
  \<open>adaptForUI\<close>: the item is the list of its own enumerable properties, in
  \<open>Object.keys\<close> order, each key with the value \<open>item[key]\<close>.
\<close>

definition adaptForUI ::
  "'v uiAdaptationMap \<Rightarrow> (string \<times> 'v) list \<Rightarrow> jsError + (string \<times> string) list" where
  "adaptForUI keysMap item = fold (adaptKey keysMap) item (Inr [])"


section \<open>The serialization codec\<close>

text \<open>
  Modelled from the spec: the codec, \<open>encodeJSON\<close> and \<open>decodeJSON\<close> of \<open>lib/utils\<close>,
  whose code is not among the sources; every definition of this section belongs to that
  model. The spec (4.1): \<open>encode\<close> walks a value recursively; primitives other than
  extended-precision integers pass through unchanged; an extended-precision integer is
  tagged so that decoding can tell it from an ordinary number; ordered sequences and
  string-keyed mappings are walked recursively and reassembled with the same shape;
  \<open>decode\<close> is the inverse transform and fails with a ParseError on a malformed tag.
  The wire form is JSON-compatible, and the JSON text is identified with the document
  it denotes. The spec does not say what the tag is: here it is a mapping with one
  key, \<open>tag\<close>, a parameter of the codec, that holds the integer's decimal numeral.
\<close>

text \<open>
  Modelled from the spec: the wire form, a JSON document, which has no
  extended-precision integers.
\<close>

datatype 'n json =
    JsonNull
  | JsonBool bool
  | JsonNumber 'n
  | JsonString string
  | JsonArray "'n json list"
  | JsonObject "(string \<times> 'n json) list"

text \<open>Modelled from the spec: a JSON document read as the value it denotes.\<close>

primrec plainValue :: "'n json \<Rightarrow> 'n jsvalue" where
  "plainValue JsonNull = JNull"
| "plainValue (JsonBool b) = JBool b"
| "plainValue (JsonNumber x) = JNumber x"
| "plainValue (JsonString s) = JString s"
| "plainValue (JsonArray js) = JArray (map plainValue js)"
| "plainValue (JsonObject kjs) = JObject (map (map_prod id plainValue) kjs)"

text \<open>Modelled from the spec: decimal numerals of unbounded integers, for the tag.\<close>

definition digitChars :: string where
  "digitChars = ''0123456789''"

fun showNat :: "nat \<Rightarrow> string" where
  "showNat n =
     (if n < 10 then [digitChars ! n] else showNat (n div 10) @ [digitChars ! (n mod 10)])"

declare showNat.simps [simp del]

definition showInt :: "int \<Rightarrow> string" where
  "showInt i = (if i < 0 then CHR ''-'' # showNat (nat (- i)) else showNat (nat i))"

definition digitValue :: "char \<Rightarrow> nat option" where
  "digitValue c = map_of (zip digitChars [0, 1, 2, 3, 4, 5, 6, 7, 8, 9]) c"

fun readDigits :: "nat \<Rightarrow> string \<Rightarrow> nat option" where
  "readDigits acc [] = Some acc"
| "readDigits acc (c # cs) =
     (case digitValue c of None \<Rightarrow> None | Some d \<Rightarrow> readDigits (10 * acc + d) cs)"

definition readNat :: "string \<Rightarrow> nat option" where
  "readNat s = (if s = [] then None else readDigits 0 s)"

fun readInt :: "string \<Rightarrow> int option" where
  "readInt [] = None"
| "readInt (c # cs) =
     (if c = CHR ''-'' then map_option (\<lambda>n. - int n) (readNat cs)
      else map_option int (readNat (c # cs)))"

datatype codecError = ParseError

text \<open>Modelled from the spec: collecting results, stopping at the first failure.\<close>

fun collect :: "('e + 'a) list \<Rightarrow> 'e + 'a list" where
  "collect [] = Inr []"
| "collect (r # rs) =
     (case r of
        Inl e \<Rightarrow> Inl e
      | Inr x \<Rightarrow> (case collect rs of Inl e \<Rightarrow> Inl e | Inr xs \<Rightarrow> Inr (x # xs)))"

fun collectProperties :: "('k \<times> ('e + 'a)) list \<Rightarrow> 'e + ('k \<times> 'a) list" where
  "collectProperties [] = Inr []"
| "collectProperties ((k, r) # rs) =
     (case r of
        Inl e \<Rightarrow> Inl e
      | Inr x \<Rightarrow> (case collectProperties rs of Inl e \<Rightarrow> Inl e | Inr xs \<Rightarrow> Inr ((k, x) # xs)))"

text \<open>
  Modelled from the spec: \<open>encode\<close>. Everything but an extended-precision integer
  keeps its shape; an extended-precision integer becomes the tagged mapping.
\<close>

primrec encode :: "string \<Rightarrow> 'n jsvalue \<Rightarrow> 'n json" where
  "encode tag JNull = JsonNull"
| "encode tag (JBool b) = JsonBool b"
| "encode tag (JNumber x) = JsonNumber x"
| "encode tag (JString s) = JsonString s"
| "encode tag (JBigInt i) = JsonObject [(tag, JsonString (showInt i))]"
| "encode tag (JArray vs) = JsonArray (map (encode tag) vs)"
| "encode tag (JObject kvs) = JsonObject (map (map_prod id (encode tag)) kvs)"

text \<open>
  Modelled from the spec: \<open>decode\<close>, children first. A mapping that has the key \<open>tag\<close>
  is read as a tagged integer; a tag that does not hold a decimal numeral is a
  ParseError.
\<close>

definition untag :: "string \<Rightarrow> (string \<times> 'n jsvalue) list \<Rightarrow> codecError + 'n jsvalue" where
  "untag tag kvs =
     (case map_of kvs tag of
        None \<Rightarrow> Inr (JObject kvs)
      | Some (JString s) \<Rightarrow>
          (case readInt s of None \<Rightarrow> Inl ParseError | Some i \<Rightarrow> Inr (JBigInt i))
      | Some _ \<Rightarrow> Inl ParseError)"

primrec decode :: "string \<Rightarrow> 'n json \<Rightarrow> codecError + 'n jsvalue" where
  "decode tag JsonNull = Inr JNull"
| "decode tag (JsonBool b) = Inr (JBool b)"
| "decode tag (JsonNumber x) = Inr (JNumber x)"
| "decode tag (JsonString s) = Inr (JString s)"
| "decode tag (JsonArray js) =
     (case collect (map (decode tag) js) of Inl e \<Rightarrow> Inl e | Inr vs \<Rightarrow> Inr (JArray vs))"
| "decode tag (JsonObject kjs) =
     (case collectProperties (map (map_prod id (decode tag)) kjs) of
        Inl e \<Rightarrow> Inl e
      | Inr kvs \<Rightarrow> untag tag kvs)"

text \<open>The values in which no mapping has the key \<open>tag\<close>.\<close>

primrec untagged :: "string \<Rightarrow> 'n jsvalue \<Rightarrow> bool" where
  "untagged tag JNull = True"
| "untagged tag (JBool b) = True"
| "untagged tag (JNumber x) = True"
| "untagged tag (JString s) = True"
| "untagged tag (JBigInt i) = True"
| "untagged tag (JArray vs) = list_all id (map (untagged tag) vs)"
| "untagged tag (JObject kvs) =
     (tag \<notin> set (map fst kvs) \<and> list_all snd (map (map_prod id (untagged tag)) kvs))"


section \<open>Verified properties\<close>

subsection \<open>The alias registry\<close>

lemma getProp_own: "obj k = Some h \<Longrightarrow> getProp obj k = Own h"
  by (simp add: getProp_def)

text \<open>
  Claim C9. When \<open>createBackgroundAsyncThunk\<close> is called with a type prefix that is
  already registered, it throws before it builds the underlying thunk and before it
  touches the registry: the module's state after the failed call (\<open>allAliases\<close> and the
  thunks built so far) is the state before it.
\<close>

theorem duplicate_registration_leaves_module_unchanged:
  assumes "allAliases m typePrefix = Some h"
  shows "createBackgroundAsyncThunk typePrefix payloadCreator options m =
           (Inl (Error ''Attempted to register an alias twice.''), m)"
  using assms by (simp add: createBackgroundAsyncThunk_def getProp_own)

theorem duplicate_registration_leaves_module_unchanged_witness:
  "allAliases (initialModule \<lparr> allAliases := [''X'' \<mapsto> (\<lambda>a d. (None, d))] \<rparr>) ''X''
     = Some (\<lambda>a d. (None, d)) \<and>
   createBackgroundAsyncThunk ''X'' (\<lambda>u::unit. (Inr () :: unit + unit)) None
       (initialModule \<lparr> allAliases := [''X'' \<mapsto> (\<lambda>a d. (None, d))] \<rparr>)
     = (Inl (Error ''Attempted to register an alias twice.''),
        initialModule \<lparr> allAliases := [''X'' \<mapsto> (\<lambda>a d. (None, d))] \<rparr>)"
  using duplicate_registration_leaves_module_unchanged
    [of "initialModule \<lparr> allAliases := [''X'' \<mapsto> (\<lambda>a d. (None, d))] \<rparr>" "''X''"
        "\<lambda>a d. (None, d)" "\<lambda>u::unit. (Inr () :: unit + unit)" None]
  by simp

text \<open>
  Claim C2. A second call with the same type prefix throws and the first handler stays
  (\<open>second_registration_refused\<close> below), and a first call with a type prefix that is
  neither registered nor a property name inherited from \<open>Object.prototype\<close> succeeds
  and stores exactly one entry (\<open>fresh_registration_succeeds\<close>). A first call with an
  inherited name does not succeed: in a module where nothing has been registered,
  \<open>allAliases["constructor"]\<close> finds the inherited function, which is truthy, and the
  call throws "Attempted to register an alias twice." without registering anything.
\<close>

theorem first_registration_of_inherited_name_refused:
  "createBackgroundAsyncThunk ''constructor'' payloadCreator options initialModule =
     (Inl (Error ''Attempted to register an alias twice.''), initialModule)"
  by (simp add: createBackgroundAsyncThunk_def getProp_def initialModule_def
      objectPrototypeKeys_def)

lemma fresh_registration_succeeds:
  assumes "allAliases m typePrefix = None" and "typePrefix \<notin> set objectPrototypeKeys"
  shows "\<exists>creator.
     createBackgroundAsyncThunk typePrefix payloadCreator options m =
       (Inr creator,
        m \<lparr> allAliases := (allAliases m)
               (typePrefix \<mapsto>
                 (\<lambda>action. thunkCall (createAsyncThunk typePrefix payloadCreator options)
                    (payload action))),
            builtThunks := builtThunks m @ [typePrefix] \<rparr>)"
  using assms by (simp add: createBackgroundAsyncThunk_def getProp_def Let_def)

lemma registration_stores_handler:
  assumes "createBackgroundAsyncThunk typePrefix payloadCreator options m = (Inr creator, m')"
  shows "\<exists>h. allAliases m' typePrefix = Some h"
  using assms by (auto simp: createBackgroundAsyncThunk_def Let_def split: if_splits)

lemma second_registration_refused:
  assumes "createBackgroundAsyncThunk typePrefix payloadCreator options m = (Inr creator, m')"
  shows "createBackgroundAsyncThunk typePrefix payloadCreator' options' m' =
           (Inl (Error ''Attempted to register an alias twice.''), m')"
proof -
  obtain h where "allAliases m' typePrefix = Some h"
    using registration_stores_handler [OF assms] by blast
  then show ?thesis
    by (simp add: createBackgroundAsyncThunk_def getProp_own)
qed

text \<open>
  Claim C3. For every type prefix whose registration succeeds and every payload, the
  action creator that \<open>createBackgroundAsyncThunk\<close> returns gives exactly the plain
  object \<open>{type: typePrefix, payload}\<close>. It does not run the payload creator:
  whichever payload creator the thunk is built from, the registration succeeds as well
  and its action creator gives this same action.
\<close>

theorem action_creator_returns_plain_action:
  assumes "createBackgroundAsyncThunk typePrefix payloadCreator options m = (Inr creator, m')"
  shows "actionCreator creator arg = \<lparr> type = typePrefix, payload = arg \<rparr> \<and>
         (\<forall>payloadCreator'.
            map_sum id (\<lambda>c. actionCreator c arg)
              (fst (createBackgroundAsyncThunk typePrefix payloadCreator' options m))
            = Inr \<lparr> type = typePrefix, payload = arg \<rparr>)"
  using assms by (auto simp add: createBackgroundAsyncThunk_def Let_def split: if_splits)

theorem action_creator_returns_plain_action_witness:
  "actionCreator
     (projr (fst (createBackgroundAsyncThunk ''X'' (\<lambda>n::nat. (Inr n :: string + nat)) None
        (initialModule :: (nat, nat, string) aliasModule)))) 7
     = \<lparr> type = ''X'', payload = 7 \<rparr> \<and>
   (\<forall>payloadCreator'.
      map_sum id (\<lambda>c. actionCreator c 7)
        (fst (createBackgroundAsyncThunk ''X'' payloadCreator' None
           (initialModule :: (nat, nat, string) aliasModule)))
      = Inr \<lparr> type = ''X'', payload = 7 \<rparr>)"
proof -
  let ?c = "createBackgroundAsyncThunk ''X'' (\<lambda>n::nat. (Inr n :: string + nat)) None
              (initialModule :: (nat, nat, string) aliasModule)"
  have h: "?c = (Inr (projr (fst ?c)), snd ?c)"
    by (simp add: createBackgroundAsyncThunk_def getProp_def initialModule_def
        objectPrototypeKeys_def Let_def)
  show ?thesis
    by (rule action_creator_returns_plain_action [OF h])
qed

text \<open>
  Claim C1, as amended. For every type prefix whose registration succeeds, the handler
  stored in \<open>allAliases\<close> runs the thunk on the action's payload. When the options'
  skip condition does not signal skip, the invocation dispatches exactly Pending and then
  one terminal action: Fulfilled with the result when the operation resolves, Rejected
  with the reason when it throws or rejects; no rejection escapes. When the skip
  condition signals skip, the invocation dispatches nothing.
\<close>

theorem registered_handler_lifecycle:
  assumes "createBackgroundAsyncThunk typePrefix payloadCreator options m = (Inr creator, m')"
  shows "\<exists>handler. allAliases m' typePrefix = Some handler \<and>
     (\<forall>action dispatched.
         handler action dispatched =
           (if signalsSkip options (payload action) then (None, dispatched)
            else (None, dispatched @ [Pending typePrefix (payload action),
                   (case payloadCreator (payload action) of
                      Inr result \<Rightarrow> Fulfilled typePrefix (payload action) result
                    | Inl reason \<Rightarrow> Rejected typePrefix (payload action) reason)])))"
  using assms
  by (auto simp add: createBackgroundAsyncThunk_def createAsyncThunk_def Let_def
      split: if_splits sum.splits)

theorem registered_handler_lifecycle_witness:
  "\<exists>handler.
     allAliases (snd (createBackgroundAsyncThunk ''X''
        (\<lambda>n::nat. if n = 0 then Inl ''boom'' else (Inr 5 :: string + nat)) None initialModule)) ''X''
       = Some handler \<and>
     (\<forall>action dispatched.
         handler action dispatched =
           (if signalsSkip None (payload action) then (None, dispatched)
            else (None, dispatched @ [Pending ''X'' (payload action),
                   (case (\<lambda>n::nat. if n = 0 then Inl ''boom'' else (Inr 5 :: string + nat))
                           (payload action) of
                      Inr result \<Rightarrow> Fulfilled ''X'' (payload action) result
                    | Inl reason \<Rightarrow> Rejected ''X'' (payload action) reason)])))"
proof -
  let ?c = "createBackgroundAsyncThunk ''X''
        (\<lambda>n::nat. if n = 0 then Inl ''boom'' else (Inr 5 :: string + nat)) None initialModule"
  have h: "?c = (Inr (projr (fst ?c)), snd ?c)"
    by (simp add: createBackgroundAsyncThunk_def getProp_def initialModule_def
        objectPrototypeKeys_def Let_def)
  show ?thesis
    by (rule registered_handler_lifecycle [OF h])
qed

text \<open>
  The claim as stated fails where the options carry a skip condition that signals skip:
  the handler registered for \<open>X\<close>, whose operation would resolve to 5, dispatches
  neither Pending nor a terminal action.
\<close>

theorem skipped_invocation_dispatches_nothing:
  "snd (the (allAliases (snd (createBackgroundAsyncThunk ''X''
              (\<lambda>u::unit. (Inr 5 :: string + nat))
              (Some \<lparr> skipCondition = Some (\<lambda>u. True) \<rparr>) initialModule)) ''X'')
          \<lparr> type = ''X'', payload = () \<rparr> [])
     = []"
  by (simp add: createBackgroundAsyncThunk_def createAsyncThunk_def getProp_def
      initialModule_def objectPrototypeKeys_def signalsSkip_def)

text \<open>The spec's examples: an operation resolving to 5, and one throwing "boom".\<close>

lemma success_sequence:
  "snd (the (allAliases (snd (createBackgroundAsyncThunk ''X''
              (\<lambda>u::unit. (Inr 5 :: string + nat)) None initialModule)) ''X'')
          \<lparr> type = ''X'', payload = () \<rparr> [])
     = [Pending ''X'' (), Fulfilled ''X'' () 5]"
  by (simp add: createBackgroundAsyncThunk_def createAsyncThunk_def getProp_def
      initialModule_def objectPrototypeKeys_def signalsSkip_def)


lemma failure_sequence:
  "the (allAliases (snd (createBackgroundAsyncThunk ''X''
          (\<lambda>u::unit. (Inl ''boom'' :: string + nat)) None initialModule)) ''X'')
      \<lparr> type = ''X'', payload = () \<rparr> []
     = (None, [Pending ''X'' (), Rejected ''X'' () ''boom''])"
  by (simp add: createBackgroundAsyncThunk_def createAsyncThunk_def getProp_def
      initialModule_def objectPrototypeKeys_def signalsSkip_def)


subsection \<open>Chain service events\<close>

text \<open>
  Claim C5. For every payload of the chain service's \<open>transaction\<close> event, the
  listeners the orchestrator registered dispatch \<open>transactionConfirmed(transaction)\<close>
  if the transaction has a truthy \<open>blockHash\<close> and a defined \<open>gasUsed\<close> field and
  \<open>transactionSeen(transaction)\<close> otherwise, and then \<open>activityEncountered(payload)\<close>
  in both cases; nothing else is dispatched.
\<close>

theorem transaction_event_dispatches:
  "emit connectChainService (TransactionEvent p) dispatched =
     dispatched @
       [if truthyString (blockHash (transaction p)) \<and> definedField (gasUsed (transaction p))
        then TransactionConfirmed (transaction p) else TransactionSeen (transaction p),
        ActivityEncountered p]"
  by (simp add: emit_def connectChainService_def onTransaction_def dispatch_def Let_def)

text \<open>
  The spec's examples: a block hash and a gas-used value of 21000, and the same
  transaction with an undefined block hash.
\<close>

lemma confirmed_transaction_example:
  "emit connectChainService
     (TransactionEvent \<lparr> transaction = \<lparr> blockHash = Some ''0xabc'',
          gasUsed = PresentValue (21000 :: int), otherFields = () \<rparr>, otherPayload = () \<rparr>) []
   = [TransactionConfirmed \<lparr> blockHash = Some ''0xabc'', gasUsed = PresentValue 21000,
        otherFields = () \<rparr>,
      ActivityEncountered \<lparr> transaction = \<lparr> blockHash = Some ''0xabc'',
          gasUsed = PresentValue 21000, otherFields = () \<rparr>, otherPayload = () \<rparr>
      :: (int, unit, unit, unit) storeAction]"
  by (simp add: emit_def connectChainService_def onTransaction_def dispatch_def Let_def)

lemma seen_transaction_example:
  "emit connectChainService
     (TransactionEvent \<lparr> transaction = \<lparr> blockHash = None,
          gasUsed = PresentValue (21000 :: int), otherFields = () \<rparr>, otherPayload = () \<rparr>) []
   = [TransactionSeen \<lparr> blockHash = None, gasUsed = PresentValue 21000, otherFields = () \<rparr>,
      ActivityEncountered \<lparr> transaction = \<lparr> blockHash = None,
          gasUsed = PresentValue 21000, otherFields = () \<rparr>, otherPayload = () \<rparr>
      :: (int, unit, unit, unit) storeAction]"
  by (simp add: emit_def connectChainService_def onTransaction_def dispatch_def Let_def)


subsection \<open>The redux cache middleware\<close>

lemma reduxCache_result:
  "fst (reduxCache flag enc outcome nxt action w) = fst (nxt action w)"
  by (simp add: reduxCache_def storageLocalSet_def Let_def split: prod.splits)

lemma reduxCache_state:
  "storeState (snd (reduxCache flag enc outcome nxt action w)) = storeState (snd (nxt action w))"
  by (simp add: reduxCache_def storageLocalSet_def Let_def split: prod.splits)

lemma reduxCache_sets:
  "storageSets (snd (reduxCache flag enc outcome nxt action w)) =
     storageSets (snd (nxt action w)) @
       (if flag = Some ''true'' then [(''state'', enc (storeState (snd (nxt action w))))] else [])"
  by (simp add: reduxCache_def storageLocalSet_def Let_def split: prod.splits)

lemma reduxCache_ignores_outcome:
  "reduxCache flag enc outcome nxt action w = reduxCache flag enc outcome' nxt action w"
  by (simp add: reduxCache_def storageLocalSet_def Let_def split: prod.splits)

lemma applyMiddleware_reduxCache_innermost:
  "applyMiddleware (storeMiddleware al ds flag enc outcome) base =
     applyMiddleware (al # ds) (reduxCache flag enc outcome base)"
  by (simp add: applyMiddleware_def storeMiddleware_def)

lemma reducerDispatch_state:
  "storeState (snd (reducerDispatch rootReducer a w)) = rootReducer (storeState w) a"
  by (simp add: reducerDispatch_def)

lemma reducerDispatch_sets:
  "storageSets (snd (reducerDispatch rootReducer a w)) = storageSets w"
  by (simp add: reducerDispatch_def)

lemma dispatchAll_state:
  "storeState (dispatchAll (reduxCache flag enc outcome (reducerDispatch rootReducer)) acts w) =
     fold (\<lambda>a s. rootReducer s a) acts (storeState w)"
proof (induction acts arbitrary: w)
  case Nil
  show ?case by simp
next
  case (Cons a acts)
  show ?case
    by (simp add: Cons.IH reduxCache_state reducerDispatch_state)
qed

lemma dispatchAll_sets:
  "storageSets (dispatchAll (reduxCache flag enc outcome (reducerDispatch rootReducer)) acts w) =
     storageSets w @
       (if flag = Some ''true''
        then map (\<lambda>s. (''state'', enc s)) (statesAfter rootReducer (storeState w) acts) else [])"
proof (induction acts arbitrary: w)
  case Nil
  show ?case by simp
next
  case (Cons a acts)
  show ?case
    by (simp add: Cons.IH reduxCache_sets reduxCache_state reducerDispatch_state
        reducerDispatch_sets)
qed

lemma length_statesAfter: "length (statesAfter rootReducer s acts) = length acts"
  by (induction acts arbitrary: s) simp_all

text \<open>
  Claim C6, as amended. For every action that reaches the \<open>reduxCache\<close> middleware,
  that is for every invocation of it: the middleware returns what the rest of the chain
  returns and leaves the store's state as the chain left it; when \<open>WRITE_REDUX_CACHE\<close>
  is not \<open>"true"\<close> it performs no storage write; when it is \<open>"true"\<close> it performs
  exactly one write, of the encoded full store state as it is after the rest of the
  chain has processed the action, under the single key \<open>state\<close>; and it does not wait
  for the write: whether the write succeeds or rejects, the invocation returns the same
  result and leaves the same state. In the store \<open>initializeStore\<close> builds,
  \<open>reduxCache\<close> is the last middleware, so the rest of its chain is the store's own
  dispatch, that is the reducers; and a sequence of actions handed to it produces no
  write with the flag off and one write per action with it on.
\<close>

theorem reduxCache_one_write_per_action_reaching_it:
  "fst (reduxCache flag enc outcome nxt action w) = fst (nxt action w) \<and>
   storeState (snd (reduxCache flag enc outcome nxt action w)) = storeState (snd (nxt action w)) \<and>
   storageSets (snd (reduxCache flag enc outcome nxt action w)) =
     storageSets (snd (nxt action w)) @
       (if flag = Some ''true''
        then [(''state'', enc (storeState (snd (nxt action w))))] else []) \<and>
   reduxCache flag enc outcome nxt action w = reduxCache flag enc outcome' nxt action w \<and>
   applyMiddleware (storeMiddleware aliasMiddleware defaultMiddleware flag enc outcome) base =
     applyMiddleware (aliasMiddleware # defaultMiddleware) (reduxCache flag enc outcome base) \<and>
   storageSets (dispatchAll (reduxCache flag enc outcome (reducerDispatch rootReducer)) acts v) =
     storageSets v @
       (if flag = Some ''true''
        then map (\<lambda>s. (''state'', enc s)) (statesAfter rootReducer (storeState v) acts)
        else []) \<and>
   length (statesAfter rootReducer (storeState v) acts) = length acts"
proof -
  have "reduxCache flag enc outcome nxt action w = reduxCache flag enc outcome' nxt action w"
    by (rule reduxCache_ignores_outcome)
  then show ?thesis
    by (simp only: reduxCache_result reduxCache_state reduxCache_sets
        applyMiddleware_reduxCache_innermost dispatchAll_sets length_statesAfter simp_thms)
qed

text \<open>
  The claim as stated fails for a dispatch on the store, which is not an invocation of
  the middleware: \<open>alias(allAliases)\<close> stands in front of it. With the write flag on,
  one dispatch of the registered action \<open>X\<close>, whose operation resolves to 5, performs
  two writes, one for Pending and one for Fulfilled. Here the state counts the actions
  reduced and is encoded in tally marks.
\<close>

theorem alias_dispatch_writes_twice:
  "storageSets (snd (storeDispatch
      (allAliases (snd (createBackgroundAsyncThunk ''X''
         (\<lambda>u::unit. (Inr 5 :: string + nat)) None initialModule)))
      [] (Some ''true'') (\<lambda>n. replicate n CHR ''|'') (\<lambda>item. None) (\<lambda>s a. Suc s)
      (Inl \<lparr> type = ''X'', payload = () \<rparr>)
      \<lparr> storeState = 0, storageSets = [] \<rparr>))
   = [(''state'', ''|''), (''state'', ''||'')]"
  by (simp add: storeDispatch_def applyMiddleware_def storeMiddleware_def relay_def
      reduxCache_def storageLocalSet_def reducerDispatch_def createBackgroundAsyncThunk_def
      createAsyncThunk_def getProp_def initialModule_def objectPrototypeKeys_def
      signalsSkip_def Let_def numeral_2_eq_2)

text \<open>
  On the store without further middleware, a dispatch performs one write per action it
  hands to the reducers: one for an action that is not registered, and one per lifecycle
  action of the handler for a registered one (none when the handler skips).
\<close>

lemma storeDispatch_sets:
  "storageSets (snd (storeDispatch aliases [] flag enc outcome rootReducer act w)) =
     storageSets w @
       (if flag = Some ''true''
        then map (\<lambda>s. (''state'', enc s))
          (statesAfter rootReducer (storeState w)
            (case act of
               Inr lifecycle \<Rightarrow> [act]
             | Inl plain \<Rightarrow>
                 (case aliases (type plain) of
                    None \<Rightarrow> [act]
                  | Some handler \<Rightarrow> map Inr (snd (handler plain [])))))
        else [])"
  by (simp add: storeDispatch_def applyMiddleware_def storeMiddleware_def relay_def
      reduxCache_sets reducerDispatch_state reducerDispatch_sets dispatchAll_sets Let_def
      split: sum.splits option.splits prod.splits)

lemma skipped_alias_dispatch_writes_nothing:
  "storageSets (snd (storeDispatch
      (allAliases (snd (createBackgroundAsyncThunk ''X''
         (\<lambda>u::unit. (Inr 5 :: string + nat))
         (Some \<lparr> skipCondition = Some (\<lambda>u. True) \<rparr>) initialModule)))
      [] (Some ''true'') (\<lambda>n. replicate n CHR ''|'') (\<lambda>item. None) (\<lambda>s a. Suc s)
      (Inl \<lparr> type = ''X'', payload = () \<rparr>)
      \<lparr> storeState = 0, storageSets = [] \<rparr>))
   = []"
  by (simp add: storeDispatch_def applyMiddleware_def storeMiddleware_def relay_def
      createBackgroundAsyncThunk_def createAsyncThunk_def getProp_def initialModule_def
      objectPrototypeKeys_def signalsSkip_def Let_def)


subsection \<open>Restoring the saved state at creation\<close>

lemma restore_flag_off:
  "READ_REDUX_CACHE \<noteq> Some ''true'' \<Longrightarrow>
     restoreSavedReduxState READ_REDUX_CACHE storageGet decodeJSON = Inr (JObject [])"
  by (simp add: restoreSavedReduxState_def)

lemma restore_stored:
  "stored \<noteq> [] \<Longrightarrow>
     restoreSavedReduxState (Some ''true'') (Inr (Some stored)) decodeJSON =
       (case decodeJSON stored of
          Inl thrown \<Rightarrow> Inl thrown
        | Inr restoredState \<Rightarrow>
            if isNonNullObject restoredState then Inr restoredState
            else Inl (Error (''Unexpected JSON persisted for state: '' @ stored)))"
  by (simp add: restoreSavedReduxState_def)

lemma restore_nothing_stored:
  "restoreSavedReduxState (Some ''true'') (Inr None) decodeJSON = Inr (JObject [])"
  by (simp add: restoreSavedReduxState_def)

lemma restore_empty_text:
  "restoreSavedReduxState (Some ''true'') (Inr (Some [])) decodeJSON = Inr (JObject [])"
  by (simp add: restoreSavedReduxState_def)

lemma create_services_resolved:
  "create READ_REDUX_CACHE storageGet decodeJSON (Inr ps) (Inr cs) (Inr ixs) (Inr ks) (Inr ns) =
     (case restoreSavedReduxState READ_REDUX_CACHE storageGet decodeJSON of
        Inl e \<Rightarrow> Inl e
      | Inr saved \<Rightarrow>
          Inr \<lparr> preloadedState = saved, preferenceService = ps, chainService = cs,
                indexingService = ixs, keyringService = ks, nameService = ns \<rparr>)"
  by (simp add: create_def split: sum.splits)

text \<open>
  Claim C8, as amended. At orchestrator creation, with the five service factories
  resolving: if \<open>READ_REDUX_CACHE\<close> is not \<open>"true"\<close> the store is created with the
  empty initial state. If it is \<open>"true"\<close> and a non-empty text is stored under the key,
  the text is decoded and used as the initial state when it decodes to a non-null
  object; when \<open>decodeJSON\<close> throws, creation fails with what it threw, and when the
  decoded value is not a non-null object, creation fails with "Unexpected JSON persisted
  for state". If it is \<open>"true"\<close> and nothing is stored under the key, or the empty text
  is, the store is created with the empty initial state and no error.
\<close>

theorem create_initial_state:
  "let made = (\<lambda>saved. \<lparr> preloadedState = saved, preferenceService = ps, chainService = cs,
                 indexingService = ixs, keyringService = ks, nameService = ns \<rparr>);
       created = create READ_REDUX_CACHE storageGet decodeJSON
                   (Inr ps) (Inr cs) (Inr ixs) (Inr ks) (Inr ns)
   in (READ_REDUX_CACHE \<noteq> Some ''true'' \<longrightarrow> created = Inr (made (JObject []))) \<and>
      (READ_REDUX_CACHE = Some ''true'' \<and> storageGet = Inr (Some stored) \<and> stored \<noteq> [] \<longrightarrow>
         created =
           (case decodeJSON stored of
              Inl thrown \<Rightarrow> Inl thrown
            | Inr restoredState \<Rightarrow>
                if isNonNullObject restoredState then Inr (made restoredState)
                else Inl (Error (''Unexpected JSON persisted for state: '' @ stored)))) \<and>
      (READ_REDUX_CACHE = Some ''true'' \<and> (storageGet = Inr None \<or> storageGet = Inr (Some []))
         \<longrightarrow> created = Inr (made (JObject [])))"
proof -
  have off: "READ_REDUX_CACHE \<noteq> Some ''true'' \<Longrightarrow>
      create READ_REDUX_CACHE storageGet decodeJSON (Inr ps) (Inr cs) (Inr ixs) (Inr ks) (Inr ns)
        = Inr \<lparr> preloadedState = JObject [], preferenceService = ps, chainService = cs,
                indexingService = ixs, keyringService = ks, nameService = ns \<rparr>"
    by (simp add: create_services_resolved restore_flag_off)
  have stored: "READ_REDUX_CACHE = Some ''true'' \<Longrightarrow> storageGet = Inr (Some stored) \<Longrightarrow>
      stored \<noteq> [] \<Longrightarrow>
      create READ_REDUX_CACHE storageGet decodeJSON (Inr ps) (Inr cs) (Inr ixs) (Inr ks) (Inr ns)
        = (case decodeJSON stored of
              Inl thrown \<Rightarrow> Inl thrown
            | Inr restoredState \<Rightarrow>
                if isNonNullObject restoredState
                then Inr \<lparr> preloadedState = restoredState, preferenceService = ps,
                       chainService = cs, indexingService = ixs, keyringService = ks,
                       nameService = ns \<rparr>
                else Inl (Error (''Unexpected JSON persisted for state: '' @ stored)))"
    by (simp add: create_services_resolved restore_stored split: sum.splits)
  have falsy: "READ_REDUX_CACHE = Some ''true'' \<Longrightarrow>
      storageGet = Inr None \<or> storageGet = Inr (Some []) \<Longrightarrow>
      create READ_REDUX_CACHE storageGet decodeJSON (Inr ps) (Inr cs) (Inr ixs) (Inr ks) (Inr ns)
        = Inr \<lparr> preloadedState = JObject [], preferenceService = ps, chainService = cs,
                indexingService = ixs, keyringService = ks, nameService = ns \<rparr>"
    by (auto simp: create_services_resolved restore_nothing_stored restore_empty_text)
  show ?thesis
    unfolding Let_def using off stored falsy by blast
qed

theorem create_initial_state_witness:
  "let made = (\<lambda>saved. \<lparr> preloadedState = saved, preferenceService = (), chainService = (),
                 indexingService = (), keyringService = (), nameService = () \<rparr>);
       created = create (Some ''true'') (Inr (Some ''{}''))
                   (\<lambda>s. if s = ''{}'' then Inr (JObject [] :: unit jsvalue)
                        else Inl (SyntaxError ''Unexpected token''))
                   (Inr ()) (Inr ()) (Inr ()) (Inr ()) (Inr ())
   in created = Inr (made (JObject []))"
  using create_initial_state [of "()" "()" "()" "()" "()" "Some ''true''" "Inr (Some ''{}'')"
      "\<lambda>s. if s = ''{}'' then Inr (JObject [] :: unit jsvalue)
            else Inl (SyntaxError ''Unexpected token'')" "''{}''"]
  by (simp add: Let_def)

text \<open>
  The claim as stated fails for a stored snapshot that is the empty text: the guard
  \<open>if (state)\<close> takes it for no snapshot at all, so although no decoder accepts it
  (here \<open>decodeJSON\<close> throws on every text), creation succeeds with the empty state.
\<close>

theorem empty_snapshot_starts_empty:
  "create (Some ''true'') (Inr (Some ''''))
      (\<lambda>s. Inl (SyntaxError ''Unexpected end of JSON input''))
      (Inr ()) (Inr ()) (Inr ()) (Inr ()) (Inr ())
   = Inr \<lparr> preloadedState = (JObject [] :: unit jsvalue), preferenceService = (),
           chainService = (), indexingService = (), keyringService = (), nameService = () \<rparr>"
  by (simp add: create_def restoreSavedReduxState_def)


subsection \<open>Adapting an item for the UI\<close>

lemma adaptKey_thrown: "adaptKey keysMap entry (Inl e) = Inl e"
  by (simp add: adaptKey_def)

lemma fold_adaptKey_thrown: "fold (adaptKey keysMap) item (Inl e) = Inl e"
  by (induction item) (simp_all add: adaptKey_thrown)

lemma adaptKey_adjusted:
  "keysMap k = Some (Some a) \<Longrightarrow>
     adaptKey keysMap (k, v) (Inr prev) = Inr (AList.update (readableName a) (transformer a v) prev)"
  by (simp add: adaptKey_def hasProperty_def getProp_def)

lemma adaptKey_undefined:
  "keysMap k = Some None \<Longrightarrow> adaptKey keysMap (k, v) (Inr prev) = Inr prev"
  by (simp add: adaptKey_def hasProperty_def getProp_def)

lemma adaptKey_missing:
  "keysMap k = None \<Longrightarrow> k \<notin> set objectPrototypeKeys \<Longrightarrow>
     adaptKey keysMap (k, v) (Inr prev) = Inr prev"
  by (simp add: adaptKey_def hasProperty_def getProp_def)

lemma adaptKey_inherited:
  "keysMap k = None \<Longrightarrow> k \<in> set objectPrototypeKeys \<Longrightarrow>
     adaptKey keysMap (k, v) (Inr prev) =
       Inl (TypeError ''keyAdjustment.transformer is not a function'')"
  by (simp add: adaptKey_def hasProperty_def getProp_def)

lemma adaptKey_cases:
  assumes "k \<in> set objectPrototypeKeys \<longrightarrow> keysMap k \<noteq> None"
  shows "adaptKey keysMap (k, v) (Inr prev) =
     (case keysMap k of
        Some (Some a) \<Rightarrow> Inr (AList.update (readableName a) (transformer a v) prev)
      | _ \<Rightarrow> Inr prev)"
  using assms
  by (auto simp: adaptKey_adjusted adaptKey_undefined adaptKey_missing split: option.splits)

lemma fold_adaptKey_keys:
  assumes "\<forall>k \<in> fst ` set item. k \<in> set objectPrototypeKeys \<longrightarrow> keysMap k \<noteq> None"
  shows "\<exists>res. fold (adaptKey keysMap) item (Inr prev) = Inr res \<and>
     fst ` set res =
       fst ` set prev \<union> {readableName a | k a. k \<in> fst ` set item \<and> keysMap k = Some (Some a)} \<and>
     (distinct (map fst prev) \<longrightarrow> distinct (map fst res))"
  using assms
proof (induction item arbitrary: prev)
  case Nil
  then show ?case by simp
next
  case (Cons e item)
  obtain k v where e: "e = (k, v)" by (cases e)
  have k: "k \<in> set objectPrototypeKeys \<longrightarrow> keysMap k \<noteq> None"
    using Cons.prems e by simp
  have rest: "\<forall>k \<in> fst ` set item. k \<in> set objectPrototypeKeys \<longrightarrow> keysMap k \<noteq> None"
    using Cons.prems by simp
  show ?case
  proof (cases "\<exists>a. keysMap k = Some (Some a)")
    case True
    then obtain a where a: "keysMap k = Some (Some a)" by blast
    let ?p = "AList.update (readableName a) (transformer a v) prev"
    obtain res where res: "fold (adaptKey keysMap) item (Inr ?p) = Inr res"
      "fst ` set res = fst ` set ?p \<union>
         {readableName a | k a. k \<in> fst ` set item \<and> keysMap k = Some (Some a)}"
      "distinct (map fst ?p) \<longrightarrow> distinct (map fst res)"
      using Cons.IH [OF rest, of ?p] by blast
    have "fold (adaptKey keysMap) (e # item) (Inr prev) = Inr res"
      using res(1) a e by (simp add: adaptKey_adjusted)
    moreover have "fst ` set res = fst ` set prev \<union>
        {readableName a | k a. k \<in> fst ` set (e # item) \<and> keysMap k = Some (Some a)}"
      using res(2) a e by (auto simp: dom_update)
    moreover have "distinct (map fst prev) \<longrightarrow> distinct (map fst res)"
      using res(3) by (simp add: distinct_update)
    ultimately show ?thesis by blast
  next
    case False
    then have step: "adaptKey keysMap (k, v) (Inr prev) = Inr prev"
      using k adaptKey_cases [where k = k and keysMap = keysMap and v = v and prev = prev]
      by (auto split: option.splits)
    obtain res where res: "fold (adaptKey keysMap) item (Inr prev) = Inr res"
      "fst ` set res = fst ` set prev \<union>
         {readableName a | k a. k \<in> fst ` set item \<and> keysMap k = Some (Some a)}"
      "distinct (map fst prev) \<longrightarrow> distinct (map fst res)"
      using Cons.IH [OF rest, of prev] by blast
    have "fold (adaptKey keysMap) (e # item) (Inr prev) = Inr res"
      using res(1) step e by simp
    moreover have "fst ` set res = fst ` set prev \<union>
        {readableName a | k a. k \<in> fst ` set (e # item) \<and> keysMap k = Some (Some a)}"
      using res(2) False e by auto
    ultimately show ?thesis using res(3) by blast
  qed
qed

lemma fold_adaptKey_keeps:
  assumes "fold (adaptKey keysMap) item (Inr prev) = Inr res"
    and "\<forall>k a. k \<in> fst ` set item \<longrightarrow> keysMap k = Some (Some a) \<longrightarrow> readableName a \<noteq> n"
  shows "map_of res n = map_of prev n"
  using assms
proof (induction item arbitrary: prev)
  case Nil
  then show ?case by simp
next
  case (Cons e item)
  obtain k v where e: "e = (k, v)" by (cases e)
  obtain mid where mid: "adaptKey keysMap (k, v) (Inr prev) = Inr mid"
    using Cons.prems(1) e fold_adaptKey_thrown [of keysMap item]
    by (cases "adaptKey keysMap (k, v) (Inr prev)") auto
  have "map_of mid n = map_of prev n"
  proof (cases "\<exists>a. keysMap k = Some (Some a)")
    case True
    then obtain a where a: "keysMap k = Some (Some a)" by blast
    then have "readableName a \<noteq> n" using Cons.prems(2) e by auto
    then show ?thesis using mid a by (auto simp: adaptKey_adjusted update_conv')
  next
    case False
    then have "mid = prev"
      using mid by (auto simp: adaptKey_def split: if_splits jsprop.splits option.splits simp: getProp_def)
    then show ?thesis by simp
  qed
  moreover have "map_of res n = map_of mid n"
    using Cons.IH [of mid] Cons.prems mid e by auto
  ultimately show ?case by simp
qed

lemma fold_adaptKey_last:
  assumes "fold (adaptKey keysMap) (before @ (k, v) # after) (Inr prev) = Inr res"
    and "keysMap k = Some (Some a)"
    and "\<forall>k' a'. k' \<in> fst ` set after \<longrightarrow> keysMap k' = Some (Some a')
           \<longrightarrow> readableName a' \<noteq> readableName a"
  shows "map_of res (readableName a) = Some (transformer a v)"
proof -
  obtain r1 where r1: "fold (adaptKey keysMap) before (Inr prev) = Inr r1"
    using assms(1) fold_adaptKey_thrown [of keysMap "(k, v) # after"]
    by (cases "fold (adaptKey keysMap) before (Inr prev)") auto
  let ?r2 = "AList.update (readableName a) (transformer a v) r1"
  have "fold (adaptKey keysMap) after (Inr ?r2) = Inr res"
    using assms(1,2) r1 by (simp add: adaptKey_adjusted)
  then have "map_of res (readableName a) = map_of ?r2 (readableName a)"
    using assms(3) by (rule fold_adaptKey_keeps)
  then show ?thesis by (simp add: update_conv')
qed

text \<open>
  Claim C10, as amended. For every \<open>keysMap\<close> and every item none of whose keys is a
  property name that \<open>keysMap\<close> only inherits, \<open>adaptForUI(keysMap, item)\<close> returns
  an object whose keys are exactly the \<open>readableName\<close> values of the \<open>keysMap\<close>
  entries whose key occurs as a key of the item, each key once. A \<open>readableName\<close> is
  mapped to the transformer of the last entry, in the order of the item's keys, that
  carries this name, applied to the item's value at that entry's key: where no two
  matching entries share a \<open>readableName\<close>, each is mapped to its entry's transformer
  applied to the item's value at that key. The function reads the item and builds a new
  object; it has no effect on its arguments.
\<close>

theorem adaptForUI_result:
  assumes "\<forall>k \<in> fst ` set item. k \<in> set objectPrototypeKeys \<longrightarrow> keysMap k \<noteq> None"
  shows "\<exists>res. adaptForUI keysMap item = Inr res \<and>
     fst ` set res = {readableName a | k a. k \<in> fst ` set item \<and> keysMap k = Some (Some a)} \<and>
     distinct (map fst res) \<and>
     (\<forall>before k v after a.
        item = before @ (k, v) # after \<longrightarrow> keysMap k = Some (Some a) \<longrightarrow>
        (\<forall>k' a'. k' \<in> fst ` set after \<longrightarrow> keysMap k' = Some (Some a')
           \<longrightarrow> readableName a' \<noteq> readableName a) \<longrightarrow>
        map_of res (readableName a) = Some (transformer a v))"
proof -
  obtain res where res: "fold (adaptKey keysMap) item (Inr []) = Inr res"
    "fst ` set res = fst ` set ([] :: (string \<times> string) list) \<union>
       {readableName a | k a. k \<in> fst ` set item \<and> keysMap k = Some (Some a)}"
    "distinct (map fst ([] :: (string \<times> string) list)) \<longrightarrow> distinct (map fst res)"
    using fold_adaptKey_keys [OF assms, of "[]"] by blast
  have "adaptForUI keysMap item = Inr res"
    using res(1) by (simp add: adaptForUI_def)
  moreover have "fst ` set res =
      {readableName a | k a. k \<in> fst ` set item \<and> keysMap k = Some (Some a)}"
    using res(2) by simp
  moreover have "distinct (map fst res)" using res(3) by simp
  moreover have "\<forall>before k v after a.
        item = before @ (k, v) # after \<longrightarrow> keysMap k = Some (Some a) \<longrightarrow>
        (\<forall>k' a'. k' \<in> fst ` set after \<longrightarrow> keysMap k' = Some (Some a')
           \<longrightarrow> readableName a' \<noteq> readableName a) \<longrightarrow>
        map_of res (readableName a) = Some (transformer a v)"
    using res(1) fold_adaptKey_last [of keysMap _ _ _ _ "[]" res] by blast
  ultimately show ?thesis by blast
qed

theorem adaptForUI_result_witness:
  "\<exists>res.
     adaptForUI
       [''value'' \<mapsto> Some \<lparr> readableName = ''Amount'', transformer = (\<lambda>v. v @ '' ETH''),
            detailTransformer = (\<lambda>v. v) \<rparr>,
        ''gasUsed'' \<mapsto> Some \<lparr> readableName = ''Gas'', transformer = (\<lambda>v. v @ '' ETH''),
            detailTransformer = (\<lambda>v. v) \<rparr>]
       [(''hash'', ''0xabc''), (''value'', ''1''), (''gasUsed'', ''2'')] = Inr res \<and>
     fst ` set res =
       {readableName a | k a.
          k \<in> fst ` set [(''hash'', ''0xabc''), (''value'', ''1''), (''gasUsed'', ''2'')] \<and>
          [''value'' \<mapsto> Some \<lparr> readableName = ''Amount'', transformer = (\<lambda>v. v @ '' ETH''),
               detailTransformer = (\<lambda>v. v) \<rparr>,
           ''gasUsed'' \<mapsto> Some \<lparr> readableName = ''Gas'', transformer = (\<lambda>v. v @ '' ETH''),
               detailTransformer = (\<lambda>v. v) \<rparr>] k = Some (Some a)} \<and>
     distinct (map fst res) \<and>
     (\<forall>before k v after a.
        [(''hash'', ''0xabc''), (''value'', ''1''), (''gasUsed'', ''2'')] = before @ (k, v) # after \<longrightarrow>
        [''value'' \<mapsto> Some \<lparr> readableName = ''Amount'', transformer = (\<lambda>v. v @ '' ETH''),
             detailTransformer = (\<lambda>v. v) \<rparr>,
         ''gasUsed'' \<mapsto> Some \<lparr> readableName = ''Gas'', transformer = (\<lambda>v. v @ '' ETH''),
             detailTransformer = (\<lambda>v. v) \<rparr>] k = Some (Some a) \<longrightarrow>
        (\<forall>k' a'. k' \<in> fst ` set after \<longrightarrow>
           [''value'' \<mapsto> Some \<lparr> readableName = ''Amount'', transformer = (\<lambda>v. v @ '' ETH''),
                detailTransformer = (\<lambda>v. v) \<rparr>,
            ''gasUsed'' \<mapsto> Some \<lparr> readableName = ''Gas'', transformer = (\<lambda>v. v @ '' ETH''),
                detailTransformer = (\<lambda>v. v) \<rparr>] k' = Some (Some a')
           \<longrightarrow> readableName a' \<noteq> readableName a) \<longrightarrow>
        map_of res (readableName a) = Some (transformer a v))"
proof -
  let ?keysMap =
    "[''value'' \<mapsto> Some \<lparr> readableName = ''Amount'', transformer = (\<lambda>v. v @ '' ETH''),
          detailTransformer = (\<lambda>v. v) \<rparr>,
      ''gasUsed'' \<mapsto> Some \<lparr> readableName = ''Gas'', transformer = (\<lambda>v. v @ '' ETH''),
          detailTransformer = (\<lambda>v. v) \<rparr>]"
  let ?item = "[(''hash'', ''0xabc''), (''value'', ''1''), (''gasUsed'', ''2'')]"
  have h: "\<forall>k \<in> fst ` set ?item. k \<in> set objectPrototypeKeys \<longrightarrow> ?keysMap k \<noteq> None"
    by (simp add: objectPrototypeKeys_def)
  show ?thesis
    by (rule adaptForUI_result [OF h])
qed

lemma adaptForUI_example:
  "adaptForUI
     [''value'' \<mapsto> Some \<lparr> readableName = ''Amount'', transformer = (\<lambda>v. v @ '' ETH''),
          detailTransformer = (\<lambda>v. v) \<rparr>,
      ''gasUsed'' \<mapsto> Some \<lparr> readableName = ''Gas'', transformer = (\<lambda>v. v @ '' ETH''),
          detailTransformer = (\<lambda>v. v) \<rparr>]
     [(''hash'', ''0xabc''), (''value'', ''1''), (''gasUsed'', ''2'')]
   = Inr [(''Amount'', ''1 ETH''), (''Gas'', ''2 ETH'')]"
  by (simp add: adaptForUI_def adaptKey_def hasProperty_def getProp_def objectPrototypeKeys_def)

text \<open>
  The claim as stated fails where two entries of \<open>keysMap\<close> share a \<open>readableName\<close>:
  the item has the keys \<open>a\<close> and \<open>b\<close>, both entries are named \<open>Amount\<close>, and the
  result maps \<open>Amount\<close> to the transformer of \<open>b\<close> applied to the value at \<open>b\<close>, not to
  the transformer of \<open>a\<close> applied to the value at \<open>a\<close>.
\<close>

theorem shared_readableName_keeps_last:
  "adaptForUI
     [''a'' \<mapsto> Some \<lparr> readableName = ''Amount'', transformer = (\<lambda>v. v),
          detailTransformer = (\<lambda>v. v) \<rparr>,
      ''b'' \<mapsto> Some \<lparr> readableName = ''Amount'', transformer = (\<lambda>v. v),
          detailTransformer = (\<lambda>v. v) \<rparr>]
     [(''a'', ''1''), (''b'', ''2'')]
   = Inr [(''Amount'', ''2'')] \<and>
   map_of [(''Amount'', ''2'')] ''Amount'' \<noteq> Some ((\<lambda>v. v) ''1'')"
  by (simp add: adaptForUI_def adaptKey_def hasProperty_def getProp_def objectPrototypeKeys_def)

text \<open>
  An item with a key that \<open>keysMap\<close> only inherits makes \<open>adaptForUI\<close> throw: the
  inherited property passes the \<open>in\<close> test and is not \<open>undefined\<close>.
\<close>

lemma adaptForUI_inherited_key_throws:
  "adaptForUI
     [''value'' \<mapsto> Some \<lparr> readableName = ''Amount'', transformer = (\<lambda>v. v),
          detailTransformer = (\<lambda>v. v) \<rparr>]
     [(''value'', ''1''), (''toString'', ''2'')]
   = Inl (TypeError ''keyAdjustment.transformer is not a function'')"
  by (simp add: adaptForUI_def adaptKey_def hasProperty_def getProp_def objectPrototypeKeys_def)


subsection \<open>The serialization codec\<close>

lemma digit_cases:
  "d < 10 \<Longrightarrow> d = 0 \<or> d = 1 \<or> d = 2 \<or> d = 3 \<or> d = 4 \<or> d = 5 \<or> d = 6 \<or> d = 7 \<or> d = 8 \<or> d = (9::nat)"
  by arith

lemma digitValue_digit: "d < 10 \<Longrightarrow> digitValue (digitChars ! d) = Some d"
  using digit_cases [of d] by (auto simp: digitValue_def digitChars_def)

lemma digit_not_minus: "d < 10 \<Longrightarrow> digitChars ! d \<noteq> CHR ''-''"
  using digit_cases [of d] by (auto simp: digitChars_def)

lemma readDigits_snoc:
  "readDigits acc (cs @ [c]) =
     (case readDigits acc cs of
        None \<Rightarrow> None
      | Some m \<Rightarrow> (case digitValue c of None \<Rightarrow> None | Some d \<Rightarrow> Some (10 * m + d)))"
  by (induction cs arbitrary: acc) (auto split: option.splits)

lemma showNat_nonempty: "showNat n \<noteq> []"
  by (subst showNat.simps) simp

lemma readDigits_showNat: "readDigits 0 (showNat n) = Some n"
proof (induction n rule: showNat.induct)
  case (1 n)
  show ?case
  proof (cases "n < 10")
    case True
    then show ?thesis
      by (subst showNat.simps) (simp add: digitValue_digit)
  next
    case False
    then have "readDigits 0 (showNat (n div 10)) = Some (n div 10)"
      using "1.IH" by simp
    then show ?thesis
      using False by (subst showNat.simps) (simp add: readDigits_snoc digitValue_digit)
  qed
qed

lemma readNat_showNat: "readNat (showNat n) = Some n"
  by (simp add: readNat_def showNat_nonempty readDigits_showNat)

lemma hd_showNat_not_minus: "\<exists>c cs. showNat n = c # cs \<and> c \<noteq> CHR ''-''"
proof (induction n rule: showNat.induct)
  case (1 n)
  show ?case
  proof (cases "n < 10")
    case True
    then show ?thesis
      by (subst showNat.simps) (simp add: digit_not_minus)
  next
    case False
    then obtain c cs where "showNat (n div 10) = c # cs" "c \<noteq> CHR ''-''"
      using "1.IH" by auto
    then show ?thesis
      using False by (subst showNat.simps) simp
  qed
qed

lemma readInt_showInt: "readInt (showInt i) = Some i"
proof (cases "i < 0")
  case True
  then show ?thesis
    by (simp add: showInt_def readNat_showNat)
next
  case False
  obtain c cs where s: "showNat (nat i) = c # cs" "c \<noteq> CHR ''-''"
    using hd_showNat_not_minus by blast
  have "readNat (c # cs) = Some (nat i)"
    using readNat_showNat [of "nat i"] s by simp
  then show ?thesis
    using False s by (simp add: showInt_def)
qed

lemma collect_map:
  "\<forall>x \<in> set xs. f (g x) = Inr x \<Longrightarrow> collect (map f (map g xs)) = Inr xs"
  by (induction xs) auto

lemma collectProperties_map:
  "\<forall>(k, x) \<in> set kxs. f (g x) = Inr x \<Longrightarrow>
     collectProperties (map (map_prod id f) (map (map_prod id g) kxs)) = Inr kxs"
  by (induction kxs) auto

lemma untag_untagged: "tag \<notin> set (map fst kvs) \<Longrightarrow> untag tag kvs = Inr (JObject kvs)"
proof -
  assume "tag \<notin> set (map fst kvs)"
  then have "map_of kvs tag = None"
    by (simp add: map_of_eq_None_iff)
  then show ?thesis by (simp add: untag_def)
qed

lemma decode_encode_untagged:
  "untagged tag v \<Longrightarrow> decode tag (encode tag v) = Inr v"
proof (induction v)
  case (JBigInt i)
  show ?case by (simp add: untag_def readInt_showInt)
next
  case (JArray vs)
  have "\<forall>x \<in> set vs. decode tag (encode tag x) = Inr x"
    using JArray by (auto simp: list_all_iff)
  then have "collect (map (decode tag) (map (encode tag) vs)) = Inr vs"
    by (rule collect_map)
  then show ?case by simp
next
  case (JObject kvs)
  have "\<forall>(k, x) \<in> set kvs. decode tag (encode tag x) = Inr x"
  proof (clarify)
    fix k x assume kx: "(k, x) \<in> set kvs"
    then have "untagged tag x" using JObject.prems by (auto simp: list_all_iff)
    moreover have "x \<in> Basic_BNFs.snds (k, x)" by simp
    ultimately show "decode tag (encode tag x) = Inr x"
      using JObject.IH kx by blast
  qed
  then have "collectProperties
      (map (map_prod id (decode tag)) (map (map_prod id (encode tag)) kvs)) = Inr kvs"
    by (rule collectProperties_map)
  moreover have "tag \<notin> set (map fst kvs)" using JObject.prems by simp
  ultimately show ?case
    by (simp add: untag_untagged)
qed simp_all

lemma encode_plain: "encode tag (plainValue j) = j"
  by (induction j) (auto simp: map_idI prod.map_comp comp_def intro!: map_idI)

lemma plainValue_not_bigint: "plainValue j \<noteq> JBigInt i"
  by (cases j) simp_all

text \<open>
  Claim C4, as amended. For every value composed of null, booleans, ordinary numbers,
  strings, extended-precision integers, ordered sequences and string-keyed mappings,
  arbitrarily nested, in which no mapping has the key the codec tags an
  extended-precision integer with, \<open>decode(encode(v))\<close> is structurally equal to \<open>v\<close>;
  in particular an encoded extended-precision integer decodes back to an
  extended-precision integer, which is distinct from every plain number.
\<close>

theorem decode_encode_round_trip:
  assumes "untagged tag v"
  shows "decode tag (encode tag v) = Inr v \<and>
         decode tag (encode tag (JBigInt i)) = Inr (JBigInt i) \<and>
         decode tag (encode tag (JBigInt i)) \<noteq> Inr (JNumber x)"
  using assms by (simp add: decode_encode_untagged untag_def readInt_showInt)

theorem decode_encode_round_trip_witness:
  "untagged ''bigint'' (JObject [(''a'', JBigInt 10)] :: int jsvalue) \<and>
   decode ''bigint'' (encode ''bigint'' (JObject [(''a'', JBigInt 10)] :: int jsvalue))
     = Inr (JObject [(''a'', JBigInt 10)]) \<and>
   decode ''bigint'' (encode ''bigint'' (JBigInt 10 :: int jsvalue)) = Inr (JBigInt 10) \<and>
   decode ''bigint'' (encode ''bigint'' (JBigInt 10 :: int jsvalue)) \<noteq> Inr (JNumber 10)"
proof -
  have h: "untagged ''bigint'' (JObject [(''a'', JBigInt 10)] :: int jsvalue)"
    by simp
  show ?thesis
    using h decode_encode_round_trip [OF h, of 10 10] by simp
qed

text \<open>
  The claim as stated fails for a mapping that has the tag's key: with the tag
  \<open>bigint\<close>, the mapping \<open>{bigint: "10"}\<close> is encoded as itself and decoded to the
  extended-precision integer 10.
\<close>

theorem tagged_mapping_decodes_to_bigint:
  "decode ''bigint'' (encode ''bigint'' (JObject [(''bigint'', JString ''10'')] :: int jsvalue))
     = Inr (JBigInt 10) \<and>
   decode ''bigint'' (encode ''bigint'' (JObject [(''bigint'', JString ''10'')] :: int jsvalue))
     \<noteq> Inr (JObject [(''bigint'', JString ''10'')])"
  by (simp add: untag_def readNat_def digitValue_def digitChars_def)

text \<open>
  The same holds for every tag and every integer, and no other choice of tag avoids it:
  an encoding into JSON that passes the values JSON can carry through unchanged sends an
  extended-precision integer to the encoding of some such value, so no decoder inverts it
  on all values.
\<close>

lemma tagged_mapping_collides:
  "decode tag (encode tag (JObject [(tag, JString (showInt i))])) = Inr (JBigInt i)"
  by (simp add: untag_def readInt_showInt)

lemma no_json_encoding_round_trips:
  fixes enc :: "'n jsvalue \<Rightarrow> 'n json" and dec :: "'n json \<Rightarrow> 'e + 'n jsvalue"
  assumes "\<forall>j. enc (plainValue j) = j"
  shows "\<not> (\<forall>v. dec (enc v) = Inr v)"
proof
  assume rt: "\<forall>v. dec (enc v) = Inr v"
  let ?j = "enc (JBigInt 0)"
  have "dec ?j = Inr (JBigInt 0)" using rt by simp
  moreover have "dec ?j = Inr (plainValue ?j)"
    using rt assms by metis
  ultimately have "plainValue ?j = JBigInt 0" by simp
  then show False by (simp add: plainValue_not_bigint)
qed

end
